theory Spec2Isabelle
  imports Complex_Main "HOL-Library.Sublist" "HOL-Library.AList"
begin

section \<open>Python values\<close>

text \<open>
  A raised Python exception is a value: its class name and the text that \<^verbatim>\<open>str(e)\<close>
  gives. A function that may raise returns \<open>exn + 'a\<close>, with \<open>Inl\<close> for the raise.
\<close>

datatype exn = Exn (exn_class: string) (exn_str: string)

definition bindE :: "exn + 'a \<Rightarrow> ('a \<Rightarrow> exn + 'b) \<Rightarrow> exn + 'b" where
  "bindE m k = (case m of Inl e \<Rightarrow> Inl e | Inr v \<Rightarrow> k v)"

text \<open>\<^verbatim>\<open>try: body  except Exception as e: handler(e)\<close>\<close>

definition try_except :: "exn + 'a \<Rightarrow> (exn \<Rightarrow> exn + 'a) \<Rightarrow> exn + 'a" where
  "try_except body handler = (case body of Inl e \<Rightarrow> handler e | Inr v \<Rightarrow> Inr v)"

text \<open>
  What \<^verbatim>\<open>json.loads\<close> can return. An \<^verbatim>\<open>int\<close> is an integer, a finite \<^verbatim>\<open>float\<close> is held by
  a rational, and the three non-finite floats that the parser accepts are separate. A dict is an association list in
  which the first binding of a key is the one in force.

  The source compares a confidence with the literal \<^verbatim>\<open>0.6\<close>. That literal is the double
  nearest to 6/10, and no double and no integer lies strictly between the two, so on every
  value a Python number can hold the comparison agrees with the comparison against 6/10
  over the rationals; the model uses the latter and reads "confidence equal to 0.6" as
  \<open>JFloat (6/10)\<close>.
\<close>

datatype nonfinite = NaN | PosInf | NegInf

datatype json =
    JNull
  | JBool bool
  | JInt int
  | JFloat rat
  | JNonFinite nonfinite
  | JStr string
  | JList "json list"
  | JDict "(string \<times> json) list"

fun type_name :: "json \<Rightarrow> string" where
  "type_name JNull = ''NoneType''"
| "type_name (JBool _) = ''bool''"
| "type_name (JInt _) = ''int''"
| "type_name (JFloat _) = ''float''"
| "type_name (JNonFinite _) = ''float''"
| "type_name (JStr _) = ''str''"
| "type_name (JList _) = ''list''"
| "type_name (JDict _) = ''dict''"

definition quoted :: "string \<Rightarrow> string" where
  "quoted s = [CHR 0x27] @ s @ [CHR 0x27]"

definition AttributeError :: "string \<Rightarrow> string \<Rightarrow> exn" where
  "AttributeError ty attr =
     Exn ''AttributeError'' (quoted ty @ '' object has no attribute '' @ quoted attr)"

definition KeyError :: "string \<Rightarrow> exn" where
  "KeyError k = Exn ''KeyError'' (quoted k)"

text \<open>\<^verbatim>\<open>v.get(k, d)\<close>: only a dict has the method.\<close>

fun py_get :: "json \<Rightarrow> string \<Rightarrow> json \<Rightarrow> exn + json" where
  "py_get (JDict kvs) k d = Inr (case map_of kvs k of Some v \<Rightarrow> v | None \<Rightarrow> d)"
| "py_get v k d = Inl (AttributeError (type_name v) ''get'')"

text \<open>\<^verbatim>\<open>v[k]\<close> on a value already known to be a dict.\<close>

definition dict_index :: "(string \<times> json) list \<Rightarrow> string \<Rightarrow> exn + json" where
  "dict_index kvs k = (case map_of kvs k of Some v \<Rightarrow> Inr v | None \<Rightarrow> Inl (KeyError k))"

text \<open>Truth value of an object in a condition.\<close>

fun truthy :: "json \<Rightarrow> bool" where
  "truthy JNull = False"
| "truthy (JBool b) = b"
| "truthy (JInt i) = (i \<noteq> 0)"
| "truthy (JFloat r) = (r \<noteq> 0)"
| "truthy (JNonFinite _) = True"
| "truthy (JStr s) = (s \<noteq> [])"
| "truthy (JList xs) = (xs \<noteq> [])"
| "truthy (JDict kvs) = (kvs \<noteq> [])"

text \<open>\<^verbatim>\<open>v > 0.6\<close>: numbers and booleans compare, anything else is a TypeError.\<close>

definition gt_TypeError :: "json \<Rightarrow> exn" where
  "gt_TypeError v = Exn ''TypeError''
     (quoted ''>'' @ '' not supported between instances of '' @ quoted (type_name v)
        @ '' and '' @ quoted ''float'')"

fun gt_threshold :: "json \<Rightarrow> exn + bool" where
  "gt_threshold (JFloat r) = Inr (r > 6 / 10)"
| "gt_threshold (JInt i) = Inr (of_int i > (6 / 10 :: rat))"
| "gt_threshold (JBool b) = Inr b"
| "gt_threshold (JNonFinite x) = Inr (x = PosInf)"
| "gt_threshold v = Inl (gt_TypeError v)"

text \<open>
  \<^verbatim>\<open>f"{v:.2f}"\<close>: only the failure matters to the program (the text is printed and
  dropped), so the model returns no text. An \<^verbatim>\<open>int\<close> is converted to a double first,
  rounding to nearest, which overflows from \<open>2 ^ 1024 - 2 ^ 970\<close> on.
\<close>

fun format_2f :: "json \<Rightarrow> exn + unit" where
  "format_2f (JFloat _) = Inr ()"
| "format_2f (JInt i) =
     (if \<bar>i\<bar> < 2 ^ 1024 - 2 ^ 970 then Inr ()
      else Inl (Exn ''OverflowError'' ''int too large to convert to float''))"
| "format_2f (JBool _) = Inr ()"
| "format_2f (JNonFinite _) = Inr ()"
| "format_2f (JStr _) =
     Inl (Exn ''ValueError'' (''Unknown format code '' @ quoted ''f''
            @ '' for object of type '' @ quoted ''str''))"
| "format_2f v =
     Inl (Exn ''TypeError'' (''unsupported format string passed to '' @ type_name v
            @ ''.__format__''))"

text \<open>A Python value that is a \<^verbatim>\<open>str\<close> or \<^verbatim>\<open>None\<close>; an f-string renders \<^verbatim>\<open>None\<close> as text.\<close>

type_synonym pytext = "string option"

definition fmt :: "pytext \<Rightarrow> string" where
  "fmt t = (case t of None \<Rightarrow> ''None'' | Some s \<Rightarrow> s)"

section \<open>Strings\<close>

text \<open>
  Text is a list of 8-bit characters, one for each code point below 256. \<^verbatim>\<open>str.lower\<close> is
  modelled on the ASCII letters, which is where the category words live; \<^verbatim>\<open>str.strip\<close>
  removes the white space of that range: the ASCII one, U+0085 and U+00A0.
\<close>

definition lower_char :: "char \<Rightarrow> char" where
  "lower_char c =
     (let n = (of_char c :: nat) in if 65 \<le> n \<and> n \<le> 90 then char_of (n + 32) else c)"

definition lower :: "string \<Rightarrow> string" where
  "lower s = map lower_char s"

definition is_space :: "char \<Rightarrow> bool" where
  "is_space c = (c \<in> set [CHR 0x20, CHR 0x09, CHR 0x0A, CHR 0x0D, CHR 0x0B, CHR 0x0C,
                            CHR 0x1C, CHR 0x1D, CHR 0x1E, CHR 0x1F, CHR 0x85, CHR 0xA0])"

definition strip :: "string \<Rightarrow> string" where
  "strip s = rev (dropWhile is_space (rev (dropWhile is_space s)))"

text \<open>\<^verbatim>\<open>sub in s\<close> on strings: \<open>sub\<close> occurs as a contiguous run.\<close>

fun contains :: "string \<Rightarrow> string \<Rightarrow> bool" where
  "contains sub [] = (sub = [])"
| "contains sub (c # cs) = (prefix sub (c # cs) \<or> contains sub cs)"

definition startswith :: "string \<Rightarrow> string \<Rightarrow> bool" where
  "startswith s p = prefix p s"

definition endswith :: "string \<Rightarrow> string \<Rightarrow> bool" where
  "endswith s p = suffix p s"

text \<open>\<^verbatim>\<open>sep.join(parts)\<close>\<close>

fun join :: "string \<Rightarrow> string list \<Rightarrow> string" where
  "join sep [] = []"
| "join sep [p] = p"
| "join sep (p # ps) = p @ sep @ join sep ps"

text \<open>\<^verbatim>\<open>s.split(sep)\<close> on a one-character separator.\<close>

fun split_on :: "char \<Rightarrow> string \<Rightarrow> string list" where
  "split_on sep [] = [[]]"
| "split_on sep (c # cs) =
     (if c = sep then [] # split_on sep cs
      else (case split_on sep cs of
              w # ws \<Rightarrow> (c # w) # ws
            | [] \<Rightarrow> [[c]]))"

text \<open>\<^verbatim>\<open>str(i)\<close> of a natural number.\<close>

definition digit_char :: "nat \<Rightarrow> char" where
  "digit_char d = char_of (48 + d)"

fun str_nat :: "nat \<Rightarrow> string" where
  "str_nat n = (if n < 10 then [digit_char n] else str_nat (n div 10) @ [digit_char (n mod 10)])"

declare str_nat.simps [simp del]

text \<open>\<^verbatim>\<open>enumerate(xs, start)\<close>\<close>

fun enumerate_from :: "nat \<Rightarrow> 'a list \<Rightarrow> (nat \<times> 'a) list" where
  "enumerate_from i [] = []"
| "enumerate_from i (x # xs) = (i, x) # enumerate_from (Suc i) xs"


text \<open>\<^verbatim>\<open>a or b\<close> on an optional count: \<^verbatim>\<open>None\<close> and 0 both give \<open>b\<close>.\<close>

definition or_default :: "nat option \<Rightarrow> nat \<Rightarrow> nat" where
  "or_default a b = (case a of None \<Rightarrow> b | Some n \<Rightarrow> if n = 0 then b else n)"

text \<open>\<^verbatim>\<open>d.get(k, default)\<close> on a key that holds a \<^verbatim>\<open>str\<close> or \<^verbatim>\<open>None\<close>, or is absent.\<close>

definition get_text :: "pytext option \<Rightarrow> string \<Rightarrow> pytext" where
  "get_text field dflt = (case field of None \<Rightarrow> Some dflt | Some t \<Rightarrow> t)"

section \<open>Settings and the outside world\<close>

text \<open>\<^verbatim>\<open>Settings.news_categories\<close> and \<^verbatim>\<open>Settings.news_api_page_size\<close> of config.py.\<close>

definition news_categories :: "string list" where
  "news_categories =
     [''general'', ''business'', ''technology'', ''entertainment'', ''health'', ''science'',
      ''sports'']"

definition news_api_page_size :: nat where
  "news_api_page_size = 10"

text \<open>What the NewsAPI client hands back: a dict with the keys below, each possibly absent.\<close>

datatype raw_source = SourceNull | SourceDict "pytext option"

record raw_article =
  ra_title :: "pytext option"
  ra_description :: "pytext option"
  ra_url :: "pytext option"
  ra_source :: "raw_source option"
  ra_author :: "pytext option"
  ra_publishedAt :: "pytext option"
  ra_content :: "pytext option"
  ra_urlToImage :: "pytext option"

record raw_response =
  r_status :: pytext
  r_totalResults :: "int option"
  r_articles :: "raw_article list option"

text \<open>One hit of the DuckDuckGo text search.\<close>

record raw_hit =
  rh_title :: "pytext option"
  rh_body :: "pytext option"
  rh_href :: "pytext option"

datatype lc_message = HumanMessage string | AIMessage string

text \<open>
  The collaborators that are not code of this repository are parameters: the language
  model, the JSON parser, the NewsAPI client, the DuckDuckGo client, the clock and the
  configured key. Each call either raises or returns. The three module-level handles of
  nodes.py are created on first use and kept; a constructor is taken to behave the same on
  every call, so the cache is not observable and \<open>agent_ctor\<close> and \<open>ddgs_ctor\<close> say whether
  construction raises. Printing to the console is left out, except where evaluating the
  printed expression can raise.
\<close>

record env =
  agent_ctor :: "exn option"
  llm_invoke :: "string \<Rightarrow> exn + string"
  json_loads :: "string \<Rightarrow> exn + json"
  chain_invoke :: "string \<Rightarrow> lc_message list \<Rightarrow> exn + string"
  news_api_key :: string
  client_get_top_headlines :: "string option \<Rightarrow> string \<Rightarrow> nat \<Rightarrow> exn + raw_response"
  client_get_everything ::
    "string \<Rightarrow> string \<Rightarrow> string \<Rightarrow> string \<Rightarrow> string \<Rightarrow> nat \<Rightarrow> exn + raw_response"
  week_ago :: string
  today :: string
  ddgs_ctor :: "exn option"
  ddgs_text :: "string \<Rightarrow> string \<Rightarrow> nat \<Rightarrow> exn + raw_hit list"

section \<open>tools/news\_fetcher.py\<close>

record article =
  a_title :: pytext
  a_description :: pytext
  a_url :: pytext
  a_source :: pytext
  a_author :: pytext
  a_published_at :: pytext
  a_content :: pytext
  a_image_url :: pytext

text \<open>The dict every method of \<^verbatim>\<open>NewsFetcher\<close> returns; the error dicts have no \<^verbatim>\<open>total_results\<close>.\<close>

record news_result =
  n_status :: string
  n_message :: string
  n_articles :: "article list"
  n_total_results :: "int option"

definition news_error :: "string \<Rightarrow> news_result" where
  "news_error msg =
     \<lparr>n_status = ''error'', n_message = msg, n_articles = [], n_total_results = None\<rparr>"

definition NewsFetcher_init :: "env \<Rightarrow> exn + unit" where
  "NewsFetcher_init env =
     (if news_api_key env = [] then
        Inl (Exn ''ValueError'' ''NEWS_API_KEY not found in environment variables'')
      else Inr ())"

definition source_name :: "raw_source option \<Rightarrow> exn + pytext" where
  "source_name src =
     (case src of
        None \<Rightarrow> Inr (Some ''Unknown'')
      | Some SourceNull \<Rightarrow> Inl (AttributeError ''NoneType'' ''get'')
      | Some (SourceDict nm) \<Rightarrow> Inr (get_text nm ''Unknown''))"

definition format_article :: "raw_article \<Rightarrow> exn + article" where
  "format_article ra =
     bindE (source_name (ra_source ra)) (\<lambda>src. Inr
       \<lparr>a_title = get_text (ra_title ra) ''No title'',
        a_description = get_text (ra_description ra) ''No description available'',
        a_url = get_text (ra_url ra) [],
        a_source = src,
        a_author = get_text (ra_author ra) ''Unknown'',
        a_published_at = get_text (ra_publishedAt ra) [],
        a_content = get_text (ra_content ra) [],
        a_image_url = get_text (ra_urlToImage ra) []\<rparr>)"

fun format_articles :: "raw_article list \<Rightarrow> exn + article list" where
  "format_articles [] = Inr []"
| "format_articles (ra # ras) =
     bindE (format_article ra) (\<lambda>a. bindE (format_articles ras) (\<lambda>as. Inr (a # as)))"

definition news_format_response :: "raw_response \<Rightarrow> exn + news_result" where
  "news_format_response response =
     (if r_status response \<noteq> Some ''ok'' then Inr (news_error ''Failed to fetch news'')
      else
        bindE (format_articles (case r_articles response of None \<Rightarrow> [] | Some as \<Rightarrow> as))
          (\<lambda>formatted_articles. Inr
            \<lparr>n_status = ''success'',
             n_message = ''Found '' @ str_nat (length formatted_articles) @ '' articles'',
             n_articles = formatted_articles,
             n_total_results =
               Some (case r_totalResults response of None \<Rightarrow> 0 | Some n \<Rightarrow> n)\<rparr>))"

definition get_top_headlines ::
  "env \<Rightarrow> string option \<Rightarrow> string \<Rightarrow> nat option \<Rightarrow> exn + news_result" where
  "get_top_headlines env category country page_size =
     try_except
       (bindE (client_get_top_headlines env category country
                 (or_default page_size news_api_page_size))
          news_format_response)
       (\<lambda>e. Inr (news_error (''Failed to fetch top headlines: '' @ exn_str e)))"

text \<open>\<^verbatim>\<open>search_news\<close> as the workflow calls it: the dates, language and order at their defaults.\<close>

definition search_news :: "env \<Rightarrow> string \<Rightarrow> nat option \<Rightarrow> exn + news_result" where
  "search_news env query page_size =
     try_except
       (bindE (client_get_everything env query (week_ago env) (today env) ''en''
                 ''publishedAt'' (or_default page_size news_api_page_size))
          news_format_response)
       (\<lambda>e. Inr (news_error (''Failed to search news: '' @ exn_str e)))"

definition get_news_by_category :: "env \<Rightarrow> string \<Rightarrow> string \<Rightarrow> exn + news_result" where
  "get_news_by_category env category country =
     (let valid_categories = news_categories in
      if lower category \<notin> set valid_categories then
        Inr (news_error (''Invalid category. Valid options: '' @ join '', '' valid_categories))
      else get_top_headlines env (Some (lower category)) country None)"

section \<open>tools/web\_search.py\<close>

record web_item =
  wi_title :: pytext
  wi_snippet :: pytext
  wi_url :: pytext
  wi_source :: pytext

text \<open>The dict \<^verbatim>\<open>WebSearchTool.search\<close> returns; the error dicts have two keys fewer.\<close>

record web_result =
  w_status :: string
  w_message :: string
  w_results :: "web_item list"
  w_query :: "string option"
  w_total_results :: "nat option"

definition web_error :: "string \<Rightarrow> web_result" where
  "web_error msg =
     \<lparr>w_status = ''error'', w_message = msg, w_results = [], w_query = None,
      w_total_results = None\<rparr>"

definition hit_source :: "pytext option \<Rightarrow> exn + pytext" where
  "hit_source href =
     (case href of
        Some (Some h) \<Rightarrow>
          (if h = [] then Inr (Some ''Unknown'')
           else (let parts = split_on CHR ''/'' h in
                 if 2 < length parts then Inr (Some (parts ! 2))
                 else Inl (Exn ''IndexError'' ''list index out of range'')))
      | _ \<Rightarrow> Inr (Some ''Unknown''))"

definition format_hit :: "raw_hit \<Rightarrow> exn + web_item" where
  "format_hit result =
     bindE (hit_source (rh_href result)) (\<lambda>src. Inr
       \<lparr>wi_title = get_text (rh_title result) ''No title'',
        wi_snippet = get_text (rh_body result) ''No description available'',
        wi_url = get_text (rh_href result) [],
        wi_source = src\<rparr>)"

fun format_hits :: "raw_hit list \<Rightarrow> exn + web_item list" where
  "format_hits [] = Inr []"
| "format_hits (r # rs) =
     bindE (format_hit r) (\<lambda>i. bindE (format_hits rs) (\<lambda>is. Inr (i # is)))"

definition web_format_response :: "raw_hit list \<Rightarrow> string \<Rightarrow> exn + web_result" where
  "web_format_response results query =
     (if results = [] then Inr
        \<lparr>w_status = ''success'', w_message = ''No results found'', w_results = [],
         w_query = Some query, w_total_results = Some 0\<rparr>
      else
        bindE (format_hits results) (\<lambda>formatted_results. Inr
          \<lparr>w_status = ''success'',
           w_message = ''Found '' @ str_nat (length formatted_results) @ '' results'',
           w_results = formatted_results,
           w_query = Some query,
           w_total_results = Some (length formatted_results)\<rparr>))"

definition WebSearchTool_max_results :: nat where
  "WebSearchTool_max_results = 5"

definition search :: "env \<Rightarrow> string \<Rightarrow> nat option \<Rightarrow> string \<Rightarrow> exn + web_result" where
  "search env query max_results region =
     try_except
       (bindE (ddgs_text env query region (or_default max_results WebSearchTool_max_results))
          (\<lambda>results. web_format_response results query))
       (\<lambda>e. Inr (web_error (''Search failed: '' @ exn_str e)))"

section \<open>agents/chatbot.py\<close>

definition classification_prompt :: "string \<Rightarrow> string" where
  \<open>classification_prompt query =
     ''Analyze this user query and determine if it's requesting news/current events or if it's a general question.\<newline>''
     @ ''\<newline>''
     @ ''User query: "'' @ query @ ''"\<newline>''
     @ ''\<newline>''
     @ ''Respond with ONLY a JSON object in this exact format:\<newline>''
     @ ''{\<newline>''
     @ ''    "is_news_request": true or false,\<newline>''
     @ ''    "confidence": 0.0 to 1.0,\<newline>''
     @ ''    "reasoning": "brief explanation"\<newline>''
     @ ''}\<newline>''
     @ ''\<newline>''
     @ ''A query is news-related if it:\<newline>''
     @ ''- Asks about current events, recent news, or breaking news\<newline>''
     @ ''- Requests news in specific categories (business, tech, sports, etc.)\<newline>''
     @ ''- Asks "what's happening" or "latest news"\<newline>''
     @ ''- References recent/current events\<newline>''
     @ ''\<newline>''
     @ ''A query is general if it:\<newline>''
     @ ''- Asks for explanations, definitions, or how-to information\<newline>''
     @ ''- Requests recommendations or advice\<newline>''
     @ ''- Is conversational or personal\<newline>''
     @ ''- Asks about historical facts or timeless information''\<close>

definition fence :: string where
  "fence = [CHR 0x60, CHR 0x60, CHR 0x60]"

text \<open>The removal of a markdown code fence around the model's answer, statement by statement.\<close>

definition strip_fences :: "string \<Rightarrow> string" where
  "strip_fences response_content =
     (let content = strip response_content;
          content = (if startswith content (fence @ ''json'') then drop 7 content else content);
          content = (if startswith content fence then drop 3 content else content);
          content = (if endswith content fence then take (length content - 3) content
                     else content)
      in strip content)"

definition default_classification :: json where
  "default_classification =
     JDict [(''is_news_request'', JBool False),
            (''confidence'', JFloat (1 / 2)),
            (''reasoning'', JStr ''Classification error, defaulting to general query'')]"

definition classify_query :: "env \<Rightarrow> string \<Rightarrow> exn + json" where
  "classify_query env query =
     try_except
       (bindE (llm_invoke env (classification_prompt query))
          (\<lambda>response_content. json_loads env (strip_fences response_content)))
       (\<lambda>e. Inr default_classification)"

definition apology :: "exn \<Rightarrow> string" where
  "apology e = ''I apologize, but I encountered an error: '' @ exn_str e"

definition chat :: "env \<Rightarrow> string \<Rightarrow> lc_message list \<Rightarrow> exn + string" where
  "chat env user_input chat_history =
     try_except (chain_invoke env user_input chat_history) (\<lambda>e. Inr (apology e))"

text \<open>A turn of the conversation is a dict from field name to text.\<close>

type_synonym message = "(string \<times> string) list"

definition msg_index :: "message \<Rightarrow> string \<Rightarrow> exn + string" where
  "msg_index msg k = (case map_of msg k of Some v \<Rightarrow> Inr v | None \<Rightarrow> Inl (KeyError k))"

fun format_chat_history :: "message list \<Rightarrow> exn + lc_message list" where
  "format_chat_history [] = Inr []"
| "format_chat_history (msg # messages) =
     bindE (msg_index msg ''role'') (\<lambda>role.
       if role = ''user'' then
         bindE (msg_index msg ''content'') (\<lambda>c.
           bindE (format_chat_history messages) (\<lambda>rest. Inr (HumanMessage c # rest)))
       else if role = ''assistant'' then
         bindE (msg_index msg ''content'') (\<lambda>c.
           bindE (format_chat_history messages) (\<lambda>rest. Inr (AIMessage c # rest)))
       else format_chat_history messages)"

section \<open>workflows/state.py\<close>

text \<open>
  \<^verbatim>\<open>GraphState\<close>. Every key is present, as in the initial state that \<^verbatim>\<open>run_workflow\<close>
  builds, so \<^verbatim>\<open>state.get(k, default)\<close> gives the stored value and never the default.
  A \<^verbatim>\<open>None\<close> under \<^verbatim>\<open>query_classification\<close> is \<open>JNull\<close>; under the other optional
  keys it is \<open>None\<close>. The result dicts of the tools always have keys, so a stored result
  is true in a condition and \<^verbatim>\<open>None\<close> is false.
\<close>

record graph_state =
  user_input :: string
  chat_history :: "message list"
  query_classification :: json
  news_results :: "news_result option"
  web_search_results :: "web_result option"
  final_response :: string
  error :: "string option"
  metadata :: "(string \<times> json) list"

section \<open>workflows/nodes.py\<close>

definition get_chatbot_agent :: "env \<Rightarrow> exn + unit" where
  "get_chatbot_agent env = (case agent_ctor env of Some e \<Rightarrow> Inl e | None \<Rightarrow> Inr ())"

definition get_news_fetcher :: "env \<Rightarrow> exn + unit" where
  "get_news_fetcher env = NewsFetcher_init env"

definition get_web_search_tool :: "env \<Rightarrow> exn + unit" where
  "get_web_search_tool env = (case ddgs_ctor env of Some e \<Rightarrow> Inl e | None \<Rightarrow> Inr ())"

text \<open>
  Each node is one \<^verbatim>\<open>try\<close> block and its handler. The block mutates the state as it
  goes, so when it raises it leaves the state as it was at that statement: the block
  returns \<open>Inl (e, state)\<close> then, and the handler works on that state.
\<close>

definition try_node ::
  "(exn \<times> graph_state) + graph_state \<Rightarrow> (exn \<Rightarrow> graph_state \<Rightarrow> graph_state) \<Rightarrow> graph_state"
  where
  "try_node body handler = (case body of Inl (e, s) \<Rightarrow> handler e s | Inr s \<Rightarrow> s)"

text \<open>The two f-strings printed after classification: both index the dict.\<close>

definition print_classification :: "(string \<times> json) list \<Rightarrow> exn + unit" where
  "print_classification classification =
     bindE (dict_index classification ''is_news_request'') (\<lambda>_.
       bindE (dict_index classification ''confidence'') format_2f)"

definition classify_query_body :: "env \<Rightarrow> graph_state \<Rightarrow> (exn \<times> graph_state) + graph_state"
  where
  "classify_query_body env state =
     (case get_chatbot_agent env of
        Inl e \<Rightarrow> Inl (e, state)
      | Inr agent \<Rightarrow>
     (case classify_query env (user_input state) of
        Inl e \<Rightarrow> Inl (e, state)
      | Inr classification \<Rightarrow>
     (let state1 = state\<lparr>query_classification := classification\<rparr> in
      case classification of
        JDict kvs \<Rightarrow>
          (let confidence = (case map_of kvs ''confidence'' of Some v \<Rightarrow> v | None \<Rightarrow> JFloat 0);
               state2 = state1\<lparr>metadata :=
                          AList.update ''classification_confidence'' confidence
                            (metadata state1)\<rparr>
           in case print_classification kvs of
                Inl e \<Rightarrow> Inl (e, state2)
              | Inr _ \<Rightarrow> Inr state2)
      | _ \<Rightarrow> Inl (AttributeError (type_name classification) ''get'', state1))))"

definition classify_query_node :: "env \<Rightarrow> graph_state \<Rightarrow> graph_state" where
  "classify_query_node env state =
     try_node (classify_query_body env state)
       (\<lambda>e s. s\<lparr>error := Some (''Classification error: '' @ exn_str e)\<rparr>)"

text \<open>The loop over \<^verbatim>\<open>settings.news_categories\<close> with its \<^verbatim>\<open>break\<close>.\<close>

fun first_category :: "string list \<Rightarrow> string \<Rightarrow> string option" where
  "first_category [] query_lower = None"
| "first_category (cat # cats) query_lower =
     (if contains cat query_lower then Some cat else first_category cats query_lower)"

definition fetch_news_body :: "env \<Rightarrow> graph_state \<Rightarrow> (exn \<times> graph_state) + graph_state" where
  "fetch_news_body env state =
     (case get_news_fetcher env of
        Inl e \<Rightarrow> Inl (e, state)
      | Inr fetcher \<Rightarrow>
     (let query_lower = lower (user_input state);
          category = first_category news_categories query_lower
      in case (case category of
                 Some cat \<Rightarrow>
                   if cat \<noteq> [] then get_news_by_category env cat ''us''
                   else search_news env (user_input state) (Some 5)
               | None \<Rightarrow> search_news env (user_input state) (Some 5)) of
           Inl e \<Rightarrow> Inl (e, state)
         | Inr results \<Rightarrow> Inr (state\<lparr>news_results := Some results\<rparr>)))"

definition fetch_news_node :: "env \<Rightarrow> graph_state \<Rightarrow> graph_state" where
  "fetch_news_node env state =
     try_node (fetch_news_body env state)
       (\<lambda>e s. s\<lparr>error := Some (''News fetch error: '' @ exn_str e)\<rparr>)"

definition web_search_body :: "env \<Rightarrow> graph_state \<Rightarrow> (exn \<times> graph_state) + graph_state" where
  "web_search_body env state =
     (case get_web_search_tool env of
        Inl e \<Rightarrow> Inl (e, state)
      | Inr search_tool \<Rightarrow>
     (case search env (user_input state) (Some 5) ''wt-wt'' of
        Inl e \<Rightarrow> Inl (e, state)
      | Inr results \<Rightarrow> Inr (state\<lparr>web_search_results := Some results\<rparr>)))"

definition web_search_node :: "env \<Rightarrow> graph_state \<Rightarrow> graph_state" where
  "web_search_node env state =
     try_node (web_search_body env state)
       (\<lambda>e s. s\<lparr>web_search_results := Some (web_error (exn_str e))\<rparr>)"

text \<open>The context block of \<^verbatim>\<open>generate_response_node\<close>: the list \<^verbatim>\<open>context_parts\<close>.\<close>

definition article_part :: "nat \<times> article \<Rightarrow> string" where
  "article_part p =
     (case p of (i, article) \<Rightarrow>
        str_nat i @ ''. '' @ fmt (a_title article) @ ''\<newline>''
        @ ''   Source: '' @ fmt (a_source article) @ ''\<newline>''
        @ ''   '' @ fmt (a_description article) @ ''\<newline>''
        @ ''   URL: '' @ fmt (a_url article) @ ''\<newline>'')"

definition result_part :: "nat \<times> web_item \<Rightarrow> string" where
  "result_part p =
     (case p of (i, result) \<Rightarrow>
        str_nat i @ ''. '' @ fmt (wi_title result) @ ''\<newline>''
        @ ''   '' @ fmt (wi_snippet result) @ ''\<newline>''
        @ ''   URL: '' @ fmt (wi_url result) @ ''\<newline>'')"

definition news_parts :: "news_result option \<Rightarrow> string list" where
  "news_parts news =
     (case news of
        None \<Rightarrow> []
      | Some nr \<Rightarrow>
          if n_status nr = ''success'' then
            (let articles = n_articles nr in
             if articles \<noteq> [] then
               ''**Recent News Articles:**\<newline>''
                 # map article_part (enumerate_from 1 (take 5 articles))
             else [])
          else [])"

definition web_parts :: "news_result option \<Rightarrow> web_result option \<Rightarrow> string list" where
  "web_parts news web =
     (case web of
        None \<Rightarrow> []
      | Some wr \<Rightarrow>
          if w_status wr = ''success'' then
            (let results = w_results wr in
             if results \<noteq> [] \<and> news = None then
               ''\<newline>**Additional Information:**\<newline>''
                 # map result_part (enumerate_from 1 (take 3 results))
             else [])
          else [])"

definition context_parts :: "graph_state \<Rightarrow> string list" where
  "context_parts state =
     news_parts (news_results state)
       @ web_parts (news_results state) (web_search_results state)"

definition build_context :: "graph_state \<Rightarrow> string" where
  "build_context state =
     (let parts = context_parts state in if parts \<noteq> [] then join ''\<newline>'' parts else [])"

definition enhanced_input :: "graph_state \<Rightarrow> string" where
  "enhanced_input state =
     (let context = build_context state in
      if context \<noteq> [] then
        ''Based on the following information, please answer the user's question:\<newline>''
        @ ''\<newline>''
        @ context @ ''\<newline>''
        @ ''\<newline>''
        @ ''User's question: '' @ user_input state @ ''\<newline>''
        @ ''\<newline>''
        @ ''Please provide a helpful, informative response that synthesizes the information above.''
      else user_input state)"

definition generate_response_body ::
  "env \<Rightarrow> graph_state \<Rightarrow> (exn \<times> graph_state) + graph_state" where
  "generate_response_body env state =
     (case get_chatbot_agent env of
        Inl e \<Rightarrow> Inl (e, state)
      | Inr agent \<Rightarrow>
     (case format_chat_history (chat_history state) of
        Inl e \<Rightarrow> Inl (e, state)
      | Inr formatted_history \<Rightarrow>
     (case chat env (enhanced_input state) formatted_history of
        Inl e \<Rightarrow> Inl (e, state)
      | Inr response \<Rightarrow> Inr (state\<lparr>final_response := response\<rparr>))))"

definition generate_response_node :: "env \<Rightarrow> graph_state \<Rightarrow> graph_state" where
  "generate_response_node env state =
     try_node (generate_response_body env state)
       (\<lambda>e s. s\<lparr>error := Some (''Response generation error: '' @ exn_str e),
                final_response := apology e\<rparr>)"

definition handle_general_query_body ::
  "env \<Rightarrow> graph_state \<Rightarrow> (exn \<times> graph_state) + graph_state" where
  "handle_general_query_body env state =
     (case get_chatbot_agent env of
        Inl e \<Rightarrow> Inl (e, state)
      | Inr agent \<Rightarrow>
     (case format_chat_history (chat_history state) of
        Inl e \<Rightarrow> Inl (e, state)
      | Inr formatted_history \<Rightarrow>
     (case chat env (user_input state) formatted_history of
        Inl e \<Rightarrow> Inl (e, state)
      | Inr response \<Rightarrow> Inr (state\<lparr>final_response := response\<rparr>))))"

definition handle_general_query_node :: "env \<Rightarrow> graph_state \<Rightarrow> graph_state" where
  "handle_general_query_node env state =
     try_node (handle_general_query_body env state)
       (\<lambda>e s. s\<lparr>error := Some (''General query error: '' @ exn_str e),
                final_response := apology e\<rparr>)"

section \<open>workflows/graph.py\<close>

datatype node =
  Classify_query | Fetch_news | Web_search | Generate_response | Handle_general | END

definition should_fetch_news :: "graph_state \<Rightarrow> exn + node" where
  "should_fetch_news state =
     (let classification = query_classification state in
      bindE (py_get classification ''is_news_request'' (JBool False)) (\<lambda>is_news.
      bindE (py_get classification ''confidence'' (JFloat 0)) (\<lambda>confidence.
        if truthy is_news then
          bindE (gt_threshold confidence) (\<lambda>above.
            if above then Inr Fetch_news else Inr Handle_general)
        else Inr Handle_general)))"

definition should_add_web_search :: "graph_state \<Rightarrow> exn + node" where
  "should_add_web_search state =
     (case news_results state of
        None \<Rightarrow> Inl (AttributeError ''NoneType'' ''get'')
      | Some nr \<Rightarrow>
          if n_status nr = ''error'' then Inr Web_search
          else if length (n_articles nr) < 3 then Inr Web_search
          else Inr Generate_response)"

text \<open>
  \<^verbatim>\<open>create_workflow\<close>: the function of each node and the edges that leave it. The graph
  engine is a library; what the model takes from it is that it runs the entry node, follows
  the edges until \<open>END\<close>, lets an exception of a node or a router leave \<^verbatim>\<open>invoke\<close>, and
  merges what a node returns into the state key by key. \<^verbatim>\<open>chat_history\<close> is declared with
  the reducer \<^verbatim>\<open>operator.add\<close>, so what a node returns under that key is appended to what
  the state holds; every other key is replaced. Each node returns the whole state.
\<close>

fun node_function :: "env \<Rightarrow> node \<Rightarrow> graph_state \<Rightarrow> graph_state" where
  "node_function env Classify_query = classify_query_node env"
| "node_function env Fetch_news = fetch_news_node env"
| "node_function env Web_search = web_search_node env"
| "node_function env Generate_response = generate_response_node env"
| "node_function env Handle_general = handle_general_query_node env"
| "node_function env END = (\<lambda>state. state)"

fun next_node :: "node \<Rightarrow> graph_state \<Rightarrow> exn + node" where
  "next_node Classify_query state = should_fetch_news state"
| "next_node Fetch_news state = should_add_web_search state"
| "next_node Web_search state = Inr Generate_response"
| "next_node Generate_response state = Inr END"
| "next_node Handle_general state = Inr END"
| "next_node END state = Inr END"

definition merge_update :: "graph_state \<Rightarrow> graph_state \<Rightarrow> graph_state" where
  "merge_update state returned =
     returned\<lparr>chat_history := chat_history state @ chat_history returned\<rparr>"

fun depth :: "node \<Rightarrow> nat" where
  "depth Classify_query = 4"
| "depth Fetch_news = 3"
| "depth Web_search = 2"
| "depth Generate_response = 1"
| "depth Handle_general = 1"
| "depth END = 0"

function invoke_from :: "env \<Rightarrow> node \<Rightarrow> graph_state \<Rightarrow> exn + graph_state" where
  "invoke_from env n state =
     (if n = END then Inr state
      else (let state' = merge_update state (node_function env n state) in
            case next_node n state' of
              Inl e \<Rightarrow> Inl e
            | Inr n' \<Rightarrow> invoke_from env n' state'))"
  by pat_completeness auto
termination
proof (relation "measure (\<lambda>(env, n, state). depth n)")
  show "wf (measure (\<lambda>(env, n, state). depth n))"
    by simp
next
  fix env :: env and n n' :: node and state state' :: graph_state
  assume "n \<noteq> END" and "next_node n state' = Inr n'"
  then have "depth n' < depth n"
    by (cases n)
       (auto simp: should_fetch_news_def should_add_web_search_def bindE_def Let_def
             split: sum.splits if_splits option.splits)
  then show "((env, n', state'), (env, n, state)) \<in> measure (\<lambda>(env, n, state). depth n)"
    by simp
qed

declare invoke_from.simps [simp del]

definition run_workflow :: "env \<Rightarrow> string \<Rightarrow> message list \<Rightarrow> exn + graph_state" where
  "run_workflow env query history =
     (let initial_state =
        \<lparr>user_input = query,
         chat_history = history,
         query_classification = JNull,
         news_results = None,
         web_search_results = None,
         final_response = [],
         error = None,
         metadata = []\<rparr>
      in invoke_from env Classify_query initial_state)"

section \<open>Sample collaborators and states\<close>

text \<open>
  A world in which everything works: the model answers with a news classification of
  confidence 0.9, the news API has no articles and the web search has no hits. The others
  differ from it in one collaborator.
\<close>

definition sample_classification :: json where
  "sample_classification =
     JDict [(''is_news_request'', JBool True),
            (''confidence'', JFloat (9 / 10)),
            (''reasoning'', JStr ''asks for current news'')]"

definition empty_response :: raw_response where
  "empty_response = \<lparr>r_status = Some ''ok'', r_totalResults = Some 0, r_articles = Some []\<rparr>"

definition sample_env :: env where
  "sample_env =
     \<lparr>agent_ctor = None,
      llm_invoke = (\<lambda>prompt. Inr ''{}''),
      json_loads = (\<lambda>text. Inr sample_classification),
      chain_invoke = (\<lambda>input history. Inr ''Here is what I found.''),
      news_api_key = ''k'',
      client_get_top_headlines = (\<lambda>category country page_size. Inr empty_response),
      client_get_everything = (\<lambda>q from_param to language sort_by page_size. Inr empty_response),
      week_ago = ''2024-01-01'',
      today = ''2024-01-08'',
      ddgs_ctor = None,
      ddgs_text = (\<lambda>keywords region max_results. Inr [])\<rparr>"

definition env_agent_down :: env where
  "env_agent_down =
     sample_env\<lparr>agent_ctor := Some (Exn ''OpenAIError'' ''client could not be created'')\<rparr>"

definition env_no_news_key :: env where
  "env_no_news_key = sample_env\<lparr>news_api_key := []\<rparr>"

definition env_llm_down :: env where
  "env_llm_down =
     sample_env\<lparr>llm_invoke := (\<lambda>prompt. Inl (Exn ''APIConnectionError'' ''Connection error.''))\<rparr>"

definition env_bad_json :: env where
  "env_bad_json =
     sample_env\<lparr>llm_invoke := (\<lambda>prompt. Inr ''I think this is news.''),
                json_loads := (\<lambda>text. Inl (Exn ''JSONDecodeError''
                                 ''Expecting value: line 1 column 1 (char 0)''))\<rparr>"

definition sample_state :: graph_state where
  "sample_state =
     \<lparr>user_input = ''sports and business news'',
      chat_history = [],
      query_classification = JNull,
      news_results = None,
      web_search_results = None,
      final_response = [],
      error = None,
      metadata = []\<rparr>"

definition headlines_state :: graph_state where
  "headlines_state = sample_state\<lparr>user_input := ''Latest headlines''\<rparr>"

definition sample_article :: article where
  "sample_article =
     \<lparr>a_title = Some ''Chip maker opens plant'',
      a_description = Some ''A new plant opened on Monday.'',
      a_url = Some ''https://news.example/chip'',
      a_source = Some ''Example News'',
      a_author = None,
      a_published_at = Some ''2024-01-08T09:00:00Z'',
      a_content = None,
      a_image_url = None\<rparr>"

definition sample_item :: web_item where
  "sample_item =
     \<lparr>wi_title = Some ''Chip plants explained'',
      wi_snippet = Some ''How a plant is built.'',
      wi_url = Some ''https://web.example/plants'',
      wi_source = Some ''web.example''\<rparr>"

definition one_article :: news_result where
  "one_article =
     \<lparr>n_status = ''success'', n_message = ''Found 1 articles'', n_articles = [sample_article],
      n_total_results = Some 1\<rparr>"

definition no_articles :: news_result where
  "no_articles =
     \<lparr>n_status = ''success'', n_message = ''Found 0 articles'', n_articles = [],
      n_total_results = Some 0\<rparr>"

definition sample_hit :: raw_hit where
  "sample_hit =
     \<lparr>rh_title = Some (Some ''Chip plants explained''),
      rh_body = Some (Some ''How a plant is built.''),
      rh_href = Some (Some ''https://web.example/plants'')\<rparr>"

text \<open>
  The news API refuses every call, the web search has one hit, and the model answers with
  the very prompt it was given, so that the prompt can be read off the response.
\<close>

definition env_news_down :: env where
  "env_news_down =
     sample_env
       \<lparr>chain_invoke := (\<lambda>input history. Inr input),
        client_get_top_headlines :=
          (\<lambda>category country page_size. Inl (Exn ''NewsAPIException'' ''rateLimited'')),
        client_get_everything :=
          (\<lambda>q from_param to language sort_by page_size.
             Inl (Exn ''NewsAPIException'' ''rateLimited'')),
        ddgs_text := (\<lambda>keywords region max_results. Inr [sample_hit])\<rparr>"

text \<open>The model call of the response fails; everything before it works.\<close>

definition env_chain_down :: env where
  "env_chain_down =
     sample_env\<lparr>chain_invoke :=
       (\<lambda>input history. Inl (Exn ''APIConnectionError'' ''Connection error.''))\<rparr>"

text \<open>
  The states that the run on the sample query passes through: after classification, and
  on entry to the response with no articles and no hits.
\<close>

definition classified_state :: graph_state where
  "classified_state =
     sample_state\<lparr>query_classification := sample_classification,
                  metadata := [(''classification_confidence'', JFloat (9 / 10))]\<rparr>"

definition no_hits :: web_result where
  "no_hits =
     \<lparr>w_status = ''success'', w_message = ''No results found'', w_results = [],
      w_query = Some ''sports and business news'', w_total_results = Some 0\<rparr>"

definition respond_state :: graph_state where
  "respond_state =
     classified_state\<lparr>news_results := Some no_articles, web_search_results := Some no_hits\<rparr>"

text \<open>A turn without the key \<^verbatim>\<open>role\<close>.\<close>

definition bad_message :: message where
  "bad_message = [(''content'', ''hi'')]"

definition three_articles :: news_result where
  "three_articles =
     \<lparr>n_status = ''success'', n_message = ''Found 3 articles'',
      n_articles = [sample_article, sample_article, sample_article],
      n_total_results = Some 3\<rparr>"

definition one_hit :: web_result where
  "one_hit =
     \<lparr>w_status = ''success'', w_message = ''Found 1 results'', w_results = [sample_item],
      w_query = Some ''sports and business news'', w_total_results = Some 1\<rparr>"

section \<open>Auxiliary facts\<close>

lemma lower_Sports: "lower ''Sports'' = ''sports''"
  by code_simp

lemma lower_Weather: "lower ''Weather'' = ''weather''"
  by code_simp

lemma sample_query_lower: "lower ''sports and business news'' = ''sports and business news''"
  by code_simp

lemma sample_query_general: "\<not> sublist ''general'' ''sports and business news''"
  by code_simp

lemma sample_query_business: "sublist ''business'' ''sports and business news''"
  by code_simp

lemma headlines_query_no_category:
  "\<forall>cat \<in> set news_categories. \<not> sublist cat (lower ''Latest headlines'')"
  by code_simp

lemma str_nat_0: "str_nat 0 = ''0''"
  by code_simp

lemma str_nat_1: "str_nat 1 = ''1''"
  by code_simp

lemma str_nat_Suc_0: "str_nat (Suc 0) = ''1''"
  by code_simp

text \<open>\<open>contains\<close> is the contiguous-run relation of the library.\<close>

lemma contains_sublist: "contains sub s \<longleftrightarrow> sublist sub s"
  by (induction s) (auto simp: sublist_Cons_right)

lemma first_category_find:
  "first_category cats ql = List.find (\<lambda>cat. contains cat ql) cats"
  by (induction cats) auto

lemma news_categories_nonempty: "cat \<in> set news_categories \<Longrightarrow> cat \<noteq> []"
  by (auto simp: news_categories_def)

text \<open>A function whose whole body sits in a \<^verbatim>\<open>try\<close> with a returning handler returns.\<close>

lemma try_except_total:
  assumes "\<And>e. \<exists>v. handler e = Inr v"
  shows "\<exists>v. try_except body handler = Inr v"
  using assms by (cases body) (auto simp: try_except_def)

lemma get_top_headlines_total: "\<exists>r. get_top_headlines env category country page_size = Inr r"
  unfolding get_top_headlines_def by (rule try_except_total) simp

lemma search_news_total: "\<exists>r. search_news env query page_size = Inr r"
  unfolding search_news_def by (rule try_except_total) simp

lemma get_news_by_category_total: "\<exists>r. get_news_by_category env category country = Inr r"
  using get_top_headlines_total by (simp add: get_news_by_category_def)

lemma search_total: "\<exists>r. search env query max_results region = Inr r"
  unfolding search_def by (rule try_except_total) simp

lemma chat_total: "\<exists>r. chat env input history = Inr r"
  unfolding chat_def by (rule try_except_total) simp

lemma chat_not_Inl: "chat env input history \<noteq> Inl e"
  using chat_total [of env input history] by auto

lemma get_news_by_category_not_Inl: "get_news_by_category env category country \<noteq> Inl e"
  using get_news_by_category_total [of env category country] by auto

lemma search_news_not_Inl: "search_news env query page_size \<noteq> Inl e"
  using search_news_total [of env query page_size] by auto

text \<open>When the blocks of the two nodes raise, and in which state.\<close>

lemma generate_response_body_raises:
  "generate_response_body env state = Inl (e, s) \<longleftrightarrow>
     s = state \<and> (agent_ctor env = Some e
                  \<or> agent_ctor env = None \<and> format_chat_history (chat_history state) = Inl e)"
  by (auto simp: generate_response_body_def get_chatbot_agent_def chat_not_Inl
           split: option.splits sum.splits)

lemma fetch_news_body_raises:
  "fetch_news_body env state = Inl (e, s) \<longleftrightarrow> s = state \<and> get_news_fetcher env = Inl e"
  by (auto simp: fetch_news_body_def Let_def get_news_by_category_not_Inl search_news_not_Inl
           split: option.splits sum.splits if_splits)

text \<open>The engine, one step at a time.\<close>

lemma invoke_from_END: "invoke_from env END state = Inr state"
  by (simp add: invoke_from.simps)

lemma invoke_from_step:
  "n \<noteq> END \<Longrightarrow>
   invoke_from env n state =
     (case next_node n (merge_update state (node_function env n state)) of
        Inl e \<Rightarrow> Inl e
      | Inr n' \<Rightarrow> invoke_from env n' (merge_update state (node_function env n state)))"
  by (subst invoke_from.simps) (simp add: Let_def)

lemma classify_query_node_agent_down:
  assumes "agent_ctor env = Some e"
  shows "classify_query_node env state =
           state\<lparr>error := Some (''Classification error: '' @ exn_str e)\<rparr>"
  using assms
  by (simp add: classify_query_node_def classify_query_body_def get_chatbot_agent_def
                try_node_def)

text \<open>
  Whenever the agent cannot be constructed, the classification stays \<^verbatim>\<open>None\<close> and the
  first router raises out of the run.
\<close>

lemma run_workflow_agent_down:
  assumes "agent_ctor env = Some e"
  shows "run_workflow env query history = Inl (AttributeError ''NoneType'' ''get'')"
  using assms
  by (simp add: run_workflow_def invoke_from_step classify_query_node_agent_down
                merge_update_def should_fetch_news_def bindE_def)

lemma fetch_news_node_no_key:
  assumes "news_api_key env = []"
  shows "fetch_news_node env state =
           state\<lparr>error :=
             Some ''News fetch error: NEWS_API_KEY not found in environment variables''\<rparr>"
  using assms
  by (simp add: fetch_news_node_def fetch_news_body_def get_news_fetcher_def
                NewsFetcher_init_def try_node_def)

lemma classify_sample:
  "classify_query_node env_no_news_key state =
     state\<lparr>query_classification := sample_classification,
           metadata := AList.update ''classification_confidence'' (JFloat (9 / 10))
                         (metadata state)\<rparr>"
  by (simp add: classify_query_node_def classify_query_body_def get_chatbot_agent_def
        try_node_def classify_query_def try_except_def bindE_def env_no_news_key_def
        sample_env_def sample_classification_def print_classification_def dict_index_def)

text \<open>
  Once the fetch has stored a result, error or not, the web part of the context is empty:
  the stored dict is not \<^verbatim>\<open>None\<close>, and the web part is added only under
  \<^verbatim>\<open>not news_results\<close>. So without an article in a successful result there is no
  context, and the model is asked the bare question.
\<close>

lemma web_parts_after_fetch: "web_parts (Some nr) web = []"
  by (simp add: web_parts_def split: option.splits)

lemma context_empty_without_articles:
  assumes "news_results state = Some nr" and "n_status nr \<noteq> ''success'' \<or> n_articles nr = []"
  shows "context_parts state = [] \<and> enhanced_input state = user_input state"
  using assms
  by (auto simp: context_parts_def news_parts_def web_parts_after_fetch enhanced_input_def
                 build_context_def)

text \<open>Runs on the sample query, evaluated.\<close>

lemma run_news_down:
  "run_workflow env_news_down ''sports and business news'' [] =
     Inr (classified_state
            \<lparr>news_results := Some (news_error ''Failed to fetch top headlines: rateLimited''),
             web_search_results := Some one_hit,
             final_response := ''sports and business news''\<rparr>)"
  by code_simp

lemma run_reaches_fetch_news:
  "run_workflow env_no_news_key ''sports and business news'' [] =
     invoke_from env_no_news_key Fetch_news classified_state"
  by code_simp

lemma run_reaches_respond_bad_history:
  "run_workflow sample_env ''sports and business news'' [bad_message] =
     invoke_from sample_env Generate_response
       (respond_state\<lparr>chat_history :=
          [bad_message, bad_message, bad_message, bad_message,
           bad_message, bad_message, bad_message, bad_message]\<rparr>)"
  by code_simp

lemma run_reaches_respond_chain_down:
  "run_workflow env_chain_down ''sports and business news'' [] =
     invoke_from env_chain_down Generate_response respond_state"
  by code_simp

lemma run_chain_down:
  "run_workflow env_chain_down ''sports and business news'' [] =
     Inr (respond_state\<lparr>final_response :=
            ''I apologize, but I encountered an error: Connection error.''\<rparr>)"
  by code_simp

lemma fetch_news_node_stores:
  assumes "get_news_fetcher env = Inr ()"
  shows "\<exists>r. fetch_news_node env state = state\<lparr>news_results := Some r\<rparr>"
  using assms search_news_total [of env "user_input state" "Some 5"]
  by (auto simp: fetch_news_node_def fetch_news_body_def try_node_def Let_def
                 get_news_by_category_not_Inl
           split: option.splits sum.splits)

lemma classify_query_node_keeps_dict:
  assumes "agent_ctor env = None" and "classify_query env (user_input state) = Inr (JDict kvs)"
  shows "query_classification (classify_query_node env state) = JDict kvs
         \<and> news_results (classify_query_node env state) = news_results state"
  using assms
  by (simp add: classify_query_node_def classify_query_body_def get_chatbot_agent_def
                try_node_def Let_def split: sum.splits)

text \<open>
  Where the run does return: the agent and the fetcher can be constructed and the
  classifier gave a dict with a Boolean flag and a numeric confidence.
\<close>

lemma run_workflow_returns:
  assumes agent: "agent_ctor env = None"
    and fetcher: "get_news_fetcher env = Inr ()"
    and cls: "classify_query env query = Inr (JDict kvs)"
    and flag: "map_of kvs ''is_news_request'' = Some (JBool b)"
    and conf: "map_of kvs ''confidence'' = Some (JFloat c)"
  shows "\<exists>s. run_workflow env query history = Inr s"
proof -
  define s0 where "s0 =
     \<lparr>user_input = query, chat_history = history, query_classification = JNull,
      news_results = None, web_search_results = None, final_response = [], error = None,
      metadata = []\<rparr>"
  define s1 where "s1 = merge_update s0 (classify_query_node env s0)"
  have run: "run_workflow env query history = invoke_from env Classify_query s0"
    by (simp add: run_workflow_def s0_def)
  have "user_input s0 = query"
    by (simp add: s0_def)
  with agent cls have c1: "query_classification s1 = JDict kvs"
    using classify_query_node_keeps_dict [of env s0 kvs]
    by (simp add: s1_def merge_update_def)
  with flag conf have "should_fetch_news s1 =
      Inr (if b \<and> c > 6 / 10 then Fetch_news else Handle_general)"
    by (simp add: should_fetch_news_def bindE_def)
  then obtain n0 where route: "should_fetch_news s1 = Inr n0"
    and n0_cases: "n0 = Handle_general \<or> n0 = Fetch_news"
    by (cases "b \<and> c > 6 / 10") auto
  from n0_cases show ?thesis
  proof
    assume "n0 = Handle_general"
    with route show ?thesis
      by (simp add: run invoke_from_step invoke_from_END s1_def [symmetric])
  next
    assume fetch: "n0 = Fetch_news"
    obtain r where r: "fetch_news_node env s1 = s1\<lparr>news_results := Some r\<rparr>"
      using fetch_news_node_stores [OF fetcher] by blast
    then have "\<exists>n. should_add_web_search (merge_update s1 (fetch_news_node env s1)) = Inr n
                   \<and> (n = Web_search \<or> n = Generate_response)"
      by (simp add: should_add_web_search_def merge_update_def)
    then obtain n where n: "should_add_web_search (merge_update s1 (fetch_news_node env s1)) = Inr n"
      and n_cases: "n = Web_search \<or> n = Generate_response"
      by blast
    from n_cases fetch route n show ?thesis
      by (auto simp: run invoke_from_step invoke_from_END s1_def [symmetric])
  qed
qed

section \<open>The routers\<close>

text \<open>
  C3. For a classification whose \<^verbatim>\<open>is_news_request\<close> is the flag \<open>b\<close> and whose
  \<^verbatim>\<open>confidence\<close> is the number \<open>c\<close>, the router after classification goes to the news
  fetch exactly when \<open>b\<close> holds and \<open>c\<close> is strictly above 0.6, and to the general path
  otherwise; at \<open>c\<close> equal to 0.6 it goes to the general path.
\<close>

theorem should_fetch_news_threshold:
  assumes "query_classification state = JDict kvs"
    and "map_of kvs ''is_news_request'' = Some (JBool b)"
    and "map_of kvs ''confidence'' = Some (JFloat c)"
  shows "should_fetch_news state = Inr (if b \<and> c > 6 / 10 then Fetch_news else Handle_general)
         \<and> (c = 6 / 10 \<longrightarrow> should_fetch_news state = Inr Handle_general)"
  using assms by (simp add: should_fetch_news_def bindE_def)

theorem should_fetch_news_threshold_witness:
  "should_fetch_news
     (sample_state\<lparr>query_classification :=
        JDict [(''is_news_request'', JBool True), (''confidence'', JFloat (6 / 10))]\<rparr>)
   = Inr Handle_general
   \<and> should_fetch_news (sample_state\<lparr>query_classification := sample_classification\<rparr>)
   = Inr Fetch_news"
  using should_fetch_news_threshold
          [of "sample_state\<lparr>query_classification :=
                 JDict [(''is_news_request'', JBool True), (''confidence'', JFloat (6 / 10))]\<rparr>"
              "[(''is_news_request'', JBool True), (''confidence'', JFloat (6 / 10))]"
              True "6 / 10"]
        should_fetch_news_threshold
          [of "sample_state\<lparr>query_classification := sample_classification\<rparr>"
              "[(''is_news_request'', JBool True), (''confidence'', JFloat (9 / 10)),
                (''reasoning'', JStr ''asks for current news'')]"
              True "9 / 10"]
  by (simp add: sample_classification_def)

text \<open>
  C4. For a news result stored in the state, the router after the news fetch goes to the
  web search exactly when the status is \<^verbatim>\<open>"error"\<close> or fewer than 3 articles came back,
  and straight to the response otherwise.
\<close>

theorem should_add_web_search_iff:
  assumes "news_results state = Some nr"
  shows "should_add_web_search state =
           Inr (if n_status nr = ''error'' \<or> length (n_articles nr) < 3 then Web_search
                else Generate_response)"
  using assms by (simp add: should_add_web_search_def)

theorem should_add_web_search_iff_witness:
  "should_add_web_search (sample_state\<lparr>news_results := Some one_article\<rparr>) = Inr Web_search
   \<and> should_add_web_search (sample_state\<lparr>news_results := Some three_articles\<rparr>)
       = Inr Generate_response
   \<and> should_add_web_search
         (sample_state\<lparr>news_results := Some (news_error ''Failed to fetch news'')\<rparr>)
       = Inr Web_search"
  using should_add_web_search_iff
          [of "sample_state\<lparr>news_results := Some one_article\<rparr>" one_article]
        should_add_web_search_iff
          [of "sample_state\<lparr>news_results := Some three_articles\<rparr>" three_articles]
        should_add_web_search_iff
          [of "sample_state\<lparr>news_results := Some (news_error ''Failed to fetch news'')\<rparr>"
              "news_error ''Failed to fetch news''"]
  by (simp add: one_article_def three_articles_def news_error_def)

section \<open>The tools\<close>

text \<open>
  C9. When the DuckDuckGo call returns and has no hits, \<^verbatim>\<open>WebSearchTool.search\<close> returns
  status \<^verbatim>\<open>"success"\<close>, an empty result list, a total of 0 and the message
  \<^verbatim>\<open>"No results found"\<close>.
\<close>

theorem search_no_hits_is_success:
  assumes "ddgs_text env query region (or_default max_results WebSearchTool_max_results) = Inr []"
  shows "search env query max_results region =
           Inr \<lparr>w_status = ''success'', w_message = ''No results found'', w_results = [],
                w_query = Some query, w_total_results = Some 0\<rparr>"
  using assms by (simp add: search_def try_except_def bindE_def web_format_response_def)

theorem search_no_hits_is_success_witness:
  "search sample_env ''chip plants'' (Some 5) ''wt-wt'' =
     Inr \<lparr>w_status = ''success'', w_message = ''No results found'', w_results = [],
          w_query = Some ''chip plants'', w_total_results = Some 0\<rparr>"
  using search_no_hits_is_success [of sample_env "''chip plants''" "''wt-wt''" "Some 5"]
  by (simp add: sample_env_def)

text \<open>
  C10. \<^verbatim>\<open>get_news_by_category\<close> on a category whose lower-case form is not one of the
  seven configured ones returns, whatever the collaborators are, the error result with no
  articles and the message that lists the valid options; on a valid category in any
  letter case it returns what \<^verbatim>\<open>get_top_headlines\<close> returns for the lower-case category.
\<close>

theorem get_news_by_category_validates:
  "(lower category \<notin> set news_categories \<longrightarrow>
      get_news_by_category env category country =
        Inr \<lparr>n_status = ''error'',
             n_message = ''Invalid category. Valid options: general, business, technology, entertainment, health, science, sports'',
             n_articles = [], n_total_results = None\<rparr>)
   \<and> (lower category \<in> set news_categories \<longrightarrow>
      get_news_by_category env category country =
        get_top_headlines env (Some (lower category)) country None)"
  by (simp add: get_news_by_category_def news_error_def news_categories_def)

theorem get_news_by_category_validates_witness:
  "get_news_by_category sample_env ''Weather'' ''us'' =
        Inr \<lparr>n_status = ''error'',
             n_message = ''Invalid category. Valid options: general, business, technology, entertainment, health, science, sports'',
             n_articles = [], n_total_results = None\<rparr>
   \<and> get_news_by_category sample_env ''Sports'' ''us'' =
        get_top_headlines sample_env (Some ''sports'') ''us'' None"
  using get_news_by_category_validates [of "''Weather''" sample_env "''us''"]
        get_news_by_category_validates [of "''Sports''" sample_env "''us''"]
  by (simp add: lower_Sports lower_Weather news_categories_def)

section \<open>The nodes\<close>

text \<open>
  C8. On the news path, when the fetcher is available: if the lower-cased query contains
  one of the seven category words, the fetch is \<^verbatim>\<open>get_news_by_category\<close> on the first
  category of the configured order that occurs in it; if it contains none, the fetch is
  \<^verbatim>\<open>search_news\<close> on the query as typed, with page size 5. The result is stored under
  \<^verbatim>\<open>news_results\<close> and nothing else changes.
\<close>

theorem fetch_news_category_choice:
  assumes "get_news_fetcher env = Inr ()"
  shows "(\<forall>i < length news_categories.
            sublist (news_categories ! i) (lower (user_input state))
            \<and> (\<forall>j < i. \<not> sublist (news_categories ! j) (lower (user_input state)))
            \<longrightarrow> (\<exists>r. get_news_by_category env (news_categories ! i) ''us'' = Inr r
                     \<and> fetch_news_node env state = state\<lparr>news_results := Some r\<rparr>))
         \<and> ((\<forall>cat \<in> set news_categories. \<not> sublist cat (lower (user_input state)))
            \<longrightarrow> (\<exists>r. search_news env (user_input state) (Some 5) = Inr r
                     \<and> fetch_news_node env state = state\<lparr>news_results := Some r\<rparr>))"
proof (intro conjI allI impI)
  fix i
  assume i: "i < length news_categories"
    and hit: "sublist (news_categories ! i) (lower (user_input state))
              \<and> (\<forall>j < i. \<not> sublist (news_categories ! j) (lower (user_input state)))"
  let ?cat = "news_categories ! i"
  from i hit have "List.find (\<lambda>cat. contains cat (lower (user_input state))) news_categories
                   = Some ?cat"
    unfolding find_Some_iff contains_sublist by blast
  then have sel: "first_category news_categories (lower (user_input state)) = Some ?cat"
    by (simp add: first_category_find)
  from i have ne: "?cat \<noteq> []"
    by (intro news_categories_nonempty nth_mem)
  obtain r where r: "get_news_by_category env ?cat ''us'' = Inr r"
    using get_news_by_category_total by blast
  with assms sel ne have "fetch_news_node env state = state\<lparr>news_results := Some r\<rparr>"
    by (simp add: fetch_news_node_def fetch_news_body_def try_node_def)
  with r show "\<exists>r. get_news_by_category env ?cat ''us'' = Inr r
                 \<and> fetch_news_node env state = state\<lparr>news_results := Some r\<rparr>"
    by blast
next
  assume none: "\<forall>cat \<in> set news_categories. \<not> sublist cat (lower (user_input state))"
  then have "List.find (\<lambda>cat. contains cat (lower (user_input state))) news_categories = None"
    unfolding find_None_iff contains_sublist by blast
  then have sel: "first_category news_categories (lower (user_input state)) = None"
    by (simp add: first_category_find)
  obtain r where r: "search_news env (user_input state) (Some 5) = Inr r"
    using search_news_total by blast
  with assms sel have "fetch_news_node env state = state\<lparr>news_results := Some r\<rparr>"
    by (simp add: fetch_news_node_def fetch_news_body_def try_node_def)
  with r show "\<exists>r. search_news env (user_input state) (Some 5) = Inr r
                 \<and> fetch_news_node env state = state\<lparr>news_results := Some r\<rparr>"
    by blast
qed

theorem fetch_news_category_choice_witness:
  "get_news_by_category sample_env ''business'' ''us'' =
     Inr \<lparr>n_status = ''success'', n_message = ''Found 0 articles'', n_articles = [],
          n_total_results = Some 0\<rparr>
   \<and> fetch_news_node sample_env sample_state =
     sample_state\<lparr>news_results :=
        Some \<lparr>n_status = ''success'', n_message = ''Found 0 articles'', n_articles = [],
              n_total_results = Some 0\<rparr>\<rparr>
   \<and> (\<exists>r. search_news sample_env ''Latest headlines'' (Some 5) = Inr r
          \<and> fetch_news_node sample_env headlines_state =
              headlines_state\<lparr>news_results := Some r\<rparr>)"
proof -
  have fetcher: "get_news_fetcher sample_env = Inr ()"
    by (simp add: get_news_fetcher_def NewsFetcher_init_def sample_env_def)
  have first: "sublist (news_categories ! 1) (lower (user_input sample_state))
               \<and> (\<forall>j < 1. \<not> sublist (news_categories ! j) (lower (user_input sample_state)))"
    by (simp add: news_categories_def sample_state_def sample_query_lower
                  sample_query_general sample_query_business)
  have "(1::nat) < length news_categories"
    by (simp add: news_categories_def)
  with fetch_news_category_choice [OF fetcher, of sample_state] first
  obtain r where r: "get_news_by_category sample_env (news_categories ! 1) ''us'' = Inr r"
    and node: "fetch_news_node sample_env sample_state = sample_state\<lparr>news_results := Some r\<rparr>"
    by blast
  have "get_news_by_category sample_env ''business'' ''us'' =
     Inr \<lparr>n_status = ''success'', n_message = ''Found 0 articles'', n_articles = [],
          n_total_results = Some 0\<rparr>"
    by (simp add: get_news_by_category_def get_top_headlines_def try_except_def bindE_def
          news_format_response_def sample_env_def empty_response_def news_categories_def
          lower_def lower_char_def str_nat_0)
  with r node have by_category:
    "get_news_by_category sample_env ''business'' ''us'' =
       Inr \<lparr>n_status = ''success'', n_message = ''Found 0 articles'', n_articles = [],
            n_total_results = Some 0\<rparr>
     \<and> fetch_news_node sample_env sample_state =
       sample_state\<lparr>news_results :=
          Some \<lparr>n_status = ''success'', n_message = ''Found 0 articles'', n_articles = [],
                n_total_results = Some 0\<rparr>\<rparr>"
    by (simp add: news_categories_def)
  have input: "user_input headlines_state = ''Latest headlines''"
    by (simp add: headlines_state_def)
  with headlines_query_no_category
  have "\<forall>cat \<in> set news_categories. \<not> sublist cat (lower (user_input headlines_state))"
    by simp
  with fetch_news_category_choice [OF fetcher, of headlines_state] input
  have "\<exists>r. search_news sample_env ''Latest headlines'' (Some 5) = Inr r
          \<and> fetch_news_node sample_env headlines_state =
              headlines_state\<lparr>news_results := Some r\<rparr>"
    by simp
  with by_category show ?thesis
    by blast
qed

section \<open>The context block\<close>

text \<open>
  C5. When the state holds a news result with status success and at least one article,
  and a web result with status success and at least one hit, the context block is the news
  header followed by the first 5 articles at most, and nothing of it (nor of the prompt
  built from it) depends on the web result.
\<close>

theorem context_news_priority:
  assumes "news_results state = Some nr" and "n_status nr = ''success''"
    and "n_articles nr \<noteq> []"
    and "web_search_results state = Some wr" and "w_status wr = ''success''"
    and "w_results wr \<noteq> []"
  shows "context_parts state =
           ''**Recent News Articles:**\<newline>''
             # map article_part (enumerate_from 1 (take 5 (n_articles nr)))
         \<and> length (context_parts state) \<le> 6
         \<and> (\<forall>web. context_parts (state\<lparr>web_search_results := web\<rparr>) = context_parts state
                 \<and> enhanced_input (state\<lparr>web_search_results := web\<rparr>) = enhanced_input state)"
proof -
  have len: "length (enumerate_from i xs) = length xs" for i and xs :: "article list"
    by (induction xs arbitrary: i) auto
  have indep: "context_parts (state\<lparr>web_search_results := web\<rparr>) = context_parts state" for web
    using assms by (simp add: context_parts_def web_parts_def split: option.splits)
  then have "enhanced_input (state\<lparr>web_search_results := web\<rparr>) = enhanced_input state" for web
    by (simp add: enhanced_input_def build_context_def Let_def cong: if_cong)
  with indep assms show ?thesis
    by (simp add: context_parts_def news_parts_def web_parts_def len)
qed

theorem context_news_priority_witness:
  "context_parts (sample_state\<lparr>news_results := Some one_article,
                                web_search_results := Some one_hit\<rparr>) =
     [''**Recent News Articles:**\<newline>'',
      ''1. Chip maker opens plant\<newline>   Source: Example News\<newline>   A new plant opened on Monday.\<newline>   URL: https://news.example/chip\<newline>'']"
  using context_news_priority
          [of "sample_state\<lparr>news_results := Some one_article, web_search_results := Some one_hit\<rparr>"
              one_article one_hit]
  by (simp add: one_article_def one_hit_def article_part_def sample_article_def fmt_def
                str_nat_Suc_0 str_nat_1)

text \<open>
  C1 fails on the code. The news API refuses the call, so the news result has status
  \<^verbatim>\<open>"error"\<close>; the web search then runs and returns status success with one hit. The
  context assembled by \<^verbatim>\<open>generate_response_node\<close> is empty all the same and the model
  is sent the bare question, as the run shows, whose model echoes its prompt. The same
  holds for a successful news result with no article.
\<close>

theorem web_context_lost_after_news_error:
  "run_workflow env_news_down ''sports and business news'' [] =
     Inr (classified_state
            \<lparr>news_results := Some (news_error ''Failed to fetch top headlines: rateLimited''),
             web_search_results := Some one_hit,
             final_response := ''sports and business news''\<rparr>)
   \<and> n_status (news_error ''Failed to fetch top headlines: rateLimited'') = ''error''
   \<and> w_status one_hit = ''success'' \<and> w_results one_hit = [sample_item]
   \<and> context_parts
         (classified_state
            \<lparr>news_results := Some (news_error ''Failed to fetch top headlines: rateLimited''),
             web_search_results := Some one_hit\<rparr>) = []
   \<and> enhanced_input
         (classified_state
            \<lparr>news_results := Some (news_error ''Failed to fetch top headlines: rateLimited''),
             web_search_results := Some one_hit\<rparr>) = ''sports and business news''
   \<and> context_parts
         (classified_state\<lparr>news_results := Some no_articles,
                           web_search_results := Some one_hit\<rparr>) = []"
  using context_empty_without_articles
          [of "classified_state
                 \<lparr>news_results := Some (news_error ''Failed to fetch top headlines: rateLimited''),
                  web_search_results := Some one_hit\<rparr>"
              "news_error ''Failed to fetch top headlines: rateLimited''"]
        context_empty_without_articles
          [of "classified_state\<lparr>news_results := Some no_articles,
                                web_search_results := Some one_hit\<rparr>" no_articles]
  by (simp add: run_news_down news_error_def one_hit_def no_articles_def classified_state_def
                sample_state_def)

section \<open>The classifier\<close>

text \<open>
  C6, as stated, fails on the text of the default: when the model call fails, the result
  is not the classification whose reasoning is \<^verbatim>\<open>"fallback"\<close>.
\<close>

theorem classify_query_fallback_counterexample:
  "classify_query env_llm_down ''What is new?'' \<noteq>
     Inr (JDict [(''is_news_request'', JBool False), (''confidence'', JFloat (1 / 2)),
                 (''reasoning'', JStr ''fallback'')])"
  by (simp add: classify_query_def try_except_def bindE_def env_llm_down_def sample_env_def
                default_classification_def)

text \<open>
  C6, amended. \<^verbatim>\<open>classify_query\<close> never raises. When the model call raises, or the text
  it returned, with the code fence removed, does not parse, the result is the default
  classification: not a news request, confidence 0.5, reasoning
  \<^verbatim>\<open>"Classification error, defaulting to general query"\<close>. When the text parses, the
  result is the parsed value.
\<close>

theorem classify_query_never_raises:
  "(\<exists>result. classify_query env query = Inr result)
   \<and> (\<forall>e. llm_invoke env (classification_prompt query) = Inl e \<longrightarrow>
          classify_query env query = Inr default_classification)
   \<and> (\<forall>content e. llm_invoke env (classification_prompt query) = Inr content
                    \<and> json_loads env (strip_fences content) = Inl e \<longrightarrow>
          classify_query env query = Inr default_classification)
   \<and> (\<forall>content result. llm_invoke env (classification_prompt query) = Inr content
                    \<and> json_loads env (strip_fences content) = Inr result \<longrightarrow>
          classify_query env query = Inr result)
   \<and> default_classification =
       JDict [(''is_news_request'', JBool False), (''confidence'', JFloat (1 / 2)),
              (''reasoning'', JStr ''Classification error, defaulting to general query'')]"
proof -
  have "\<exists>result. classify_query env query = Inr result"
    unfolding classify_query_def by (rule try_except_total) simp
  then show ?thesis
    by (simp add: classify_query_def try_except_def bindE_def default_classification_def)
qed

theorem classify_query_never_raises_witness:
  "classify_query env_llm_down ''What is new?'' = Inr default_classification
   \<and> classify_query env_bad_json ''What is new?'' = Inr default_classification
   \<and> classify_query sample_env ''What is new?'' = Inr sample_classification"
proof -
  have "llm_invoke env_llm_down (classification_prompt ''What is new?'') =
          Inl (Exn ''APIConnectionError'' ''Connection error.'')"
    by (simp add: env_llm_down_def sample_env_def)
  moreover have "llm_invoke env_bad_json (classification_prompt ''What is new?'') =
          Inr ''I think this is news.''
        \<and> json_loads env_bad_json (strip_fences ''I think this is news.'') =
          Inl (Exn ''JSONDecodeError'' ''Expecting value: line 1 column 1 (char 0)'')"
    by (simp add: env_bad_json_def sample_env_def)
  moreover have "llm_invoke sample_env (classification_prompt ''What is new?'') = Inr ''{}''
        \<and> json_loads sample_env (strip_fences ''{}'') = Inr sample_classification"
    by (simp add: sample_env_def)
  ultimately show ?thesis
    using classify_query_never_raises [of env_llm_down "''What is new?''"]
          classify_query_never_raises [of env_bad_json "''What is new?''"]
          classify_query_never_raises [of sample_env "''What is new?''"]
    by blast
qed

section \<open>Caught exceptions\<close>

text \<open>
  C7, as stated, fails in both stages. Without a NewsAPI key the block of
  \<^verbatim>\<open>fetch_news_node\<close> raises, the handler sets \<^verbatim>\<open>error\<close>, and \<^verbatim>\<open>final_response\<close> stays
  the empty string. When the model call of the response fails, \<^verbatim>\<open>chat\<close> catches the
  exception itself: the run ends with the apology in \<^verbatim>\<open>final_response\<close> and \<^verbatim>\<open>error\<close>
  still \<^verbatim>\<open>None\<close>.
\<close>

theorem caught_exception_counterexample:
  "fetch_news_body env_no_news_key classified_state =
     Inl (Exn ''ValueError'' ''NEWS_API_KEY not found in environment variables'',
          classified_state)
   \<and> error (fetch_news_node env_no_news_key classified_state) =
       Some ''News fetch error: NEWS_API_KEY not found in environment variables''
   \<and> final_response (fetch_news_node env_no_news_key classified_state) = []
   \<and> chain_invoke env_chain_down (enhanced_input respond_state) [] =
       Inl (Exn ''APIConnectionError'' ''Connection error.'')
   \<and> run_workflow env_chain_down ''sports and business news'' [] =
       Inr (respond_state\<lparr>final_response :=
              ''I apologize, but I encountered an error: Connection error.''\<rparr>)
   \<and> error (respond_state\<lparr>final_response :=
              ''I apologize, but I encountered an error: Connection error.''\<rparr>) = None"
proof -
  have fetch: "fetch_news_body env_no_news_key classified_state =
     Inl (Exn ''ValueError'' ''NEWS_API_KEY not found in environment variables'',
          classified_state)"
    by (simp add: fetch_news_body_def get_news_fetcher_def NewsFetcher_init_def
                  env_no_news_key_def sample_env_def)
  then have node: "fetch_news_node env_no_news_key classified_state =
       classified_state\<lparr>error :=
          Some ''News fetch error: NEWS_API_KEY not found in environment variables''\<rparr>"
    by (simp add: fetch_news_node_def try_node_def)
  have untouched: "final_response classified_state = [] \<and> error respond_state = None"
    by (simp add: respond_state_def classified_state_def sample_state_def)
  have call: "chain_invoke env_chain_down (enhanced_input respond_state) [] =
       Inl (Exn ''APIConnectionError'' ''Connection error.'')"
    by (simp add: env_chain_down_def sample_env_def)
  from fetch node untouched call run_chain_down show ?thesis
    by simp
qed

text \<open>
  C7, amended. When the block of \<^verbatim>\<open>fetch_news_node\<close> raises \<open>e\<close>, which it does exactly
  when the fetcher cannot be constructed, the node sets \<^verbatim>\<open>error\<close> to
  \<^verbatim>\<open>"News fetch error: "\<close> followed by the text of \<open>e\<close> and changes nothing else:
  \<^verbatim>\<open>final_response\<close> is as it was. When the block of \<^verbatim>\<open>generate_response_node\<close> raises
  \<open>e\<close>, which it does only when the agent cannot be constructed or a turn of the history
  lacks a key, the run ends there in a state whose \<^verbatim>\<open>error\<close> is
  \<^verbatim>\<open>"Response generation error: "\<close> and whose \<^verbatim>\<open>final_response\<close> is
  \<^verbatim>\<open>"I apologize, but I encountered an error: "\<close>, each followed by the text of \<open>e\<close>.
  When instead the model call of the response raises \<open>e\<close>, \<^verbatim>\<open>chat\<close> returns that apology
  as the answer: the run ends with it in \<^verbatim>\<open>final_response\<close> and with \<^verbatim>\<open>error\<close> as it was
  before the node.
\<close>

theorem caught_exception_postconditions:
  "(fetch_news_body env state = Inl (e, s) \<longrightarrow>
      get_news_fetcher env = Inl e
      \<and> fetch_news_node env state = state\<lparr>error := Some (''News fetch error: '' @ exn_str e)\<rparr>
      \<and> final_response (fetch_news_node env state) = final_response state)
   \<and> (generate_response_body env state = Inl (e, s) \<longrightarrow>
      (agent_ctor env = Some e \<or> format_chat_history (chat_history state) = Inl e)
      \<and> (\<exists>t. invoke_from env Generate_response state = Inr t
             \<and> error t = Some (''Response generation error: '' @ exn_str e)
             \<and> final_response t = ''I apologize, but I encountered an error: '' @ exn_str e))
   \<and> (agent_ctor env = None \<and> format_chat_history (chat_history state) = Inr history
       \<and> chain_invoke env (enhanced_input state) history = Inl e \<longrightarrow>
      generate_response_node env state =
        state\<lparr>final_response := ''I apologize, but I encountered an error: '' @ exn_str e\<rparr>
      \<and> (\<exists>t. invoke_from env Generate_response state = Inr t
             \<and> error t = error state
             \<and> final_response t = ''I apologize, but I encountered an error: '' @ exn_str e))"
proof (intro conjI; rule impI)
  assume raised: "fetch_news_body env state = Inl (e, s)"
  then have s: "s = state" and ctor: "get_news_fetcher env = Inl e"
    by (simp_all add: fetch_news_body_raises)
  from raised s have "fetch_news_node env state =
      state\<lparr>error := Some (''News fetch error: '' @ exn_str e)\<rparr>"
    by (simp add: fetch_news_node_def try_node_def)
  with ctor show "get_news_fetcher env = Inl e
      \<and> fetch_news_node env state = state\<lparr>error := Some (''News fetch error: '' @ exn_str e)\<rparr>
      \<and> final_response (fetch_news_node env state) = final_response state"
    by simp
next
  assume raised: "generate_response_body env state = Inl (e, s)"
  then have s: "s = state"
    and why: "agent_ctor env = Some e \<or> format_chat_history (chat_history state) = Inl e"
    by (auto simp: generate_response_body_raises)
  from raised s have node: "generate_response_node env state =
      state\<lparr>error := Some (''Response generation error: '' @ exn_str e),
            final_response := apology e\<rparr>"
    by (simp add: generate_response_node_def try_node_def)
  have "invoke_from env Generate_response state =
          Inr (merge_update state (generate_response_node env state))"
    by (simp add: invoke_from_step invoke_from_END)
  with node why show "(agent_ctor env = Some e \<or> format_chat_history (chat_history state) = Inl e)
      \<and> (\<exists>t. invoke_from env Generate_response state = Inr t
             \<and> error t = Some (''Response generation error: '' @ exn_str e)
             \<and> final_response t = ''I apologize, but I encountered an error: '' @ exn_str e)"
    by (simp add: merge_update_def apology_def)
next
  assume failing: "agent_ctor env = None \<and> format_chat_history (chat_history state) = Inr history
       \<and> chain_invoke env (enhanced_input state) history = Inl e"
  then have node: "generate_response_node env state =
        state\<lparr>final_response := ''I apologize, but I encountered an error: '' @ exn_str e\<rparr>"
    by (simp add: generate_response_node_def generate_response_body_def get_chatbot_agent_def
                  chat_def try_except_def try_node_def apology_def)
  have "invoke_from env Generate_response state =
          Inr (merge_update state (generate_response_node env state))"
    by (simp add: invoke_from_step invoke_from_END)
  with node show "generate_response_node env state =
        state\<lparr>final_response := ''I apologize, but I encountered an error: '' @ exn_str e\<rparr>
      \<and> (\<exists>t. invoke_from env Generate_response state = Inr t
             \<and> error t = error state
             \<and> final_response t = ''I apologize, but I encountered an error: '' @ exn_str e)"
    by (simp add: merge_update_def)
qed

theorem caught_exception_postconditions_witness:
  "run_workflow env_no_news_key ''sports and business news'' [] =
     invoke_from env_no_news_key Fetch_news classified_state
   \<and> fetch_news_node env_no_news_key classified_state =
       classified_state\<lparr>error :=
          Some ''News fetch error: NEWS_API_KEY not found in environment variables''\<rparr>
   \<and> (\<exists>t. run_workflow sample_env ''sports and business news'' [bad_message] = Inr t
          \<and> error t = Some (''Response generation error: '' @ exn_str (KeyError ''role''))
          \<and> final_response t =
              ''I apologize, but I encountered an error: '' @ exn_str (KeyError ''role''))
   \<and> (\<exists>t. run_workflow env_chain_down ''sports and business news'' [] = Inr t
          \<and> error t = None
          \<and> final_response t = ''I apologize, but I encountered an error: Connection error.'')"
proof -
  let ?bad = "respond_state\<lparr>chat_history :=
          [bad_message, bad_message, bad_message, bad_message,
           bad_message, bad_message, bad_message, bad_message]\<rparr>"
  have "fetch_news_body env_no_news_key classified_state =
          Inl (Exn ''ValueError'' ''NEWS_API_KEY not found in environment variables'',
               classified_state)"
    by (simp add: fetch_news_body_def get_news_fetcher_def NewsFetcher_init_def
                  env_no_news_key_def sample_env_def)
  with caught_exception_postconditions
         [of env_no_news_key classified_state
             "Exn ''ValueError'' ''NEWS_API_KEY not found in environment variables''"
             classified_state]
  have fetch: "fetch_news_node env_no_news_key classified_state =
       classified_state\<lparr>error :=
          Some ''News fetch error: NEWS_API_KEY not found in environment variables''\<rparr>"
    by simp
  have "generate_response_body sample_env ?bad = Inl (KeyError ''role'', ?bad)"
    by (simp add: generate_response_body_def get_chatbot_agent_def sample_env_def
                  bad_message_def msg_index_def bindE_def)
  with caught_exception_postconditions [of sample_env ?bad "KeyError ''role''" ?bad]
  have handler: "\<exists>t. invoke_from sample_env Generate_response ?bad = Inr t
          \<and> error t = Some (''Response generation error: '' @ exn_str (KeyError ''role''))
          \<and> final_response t =
              ''I apologize, but I encountered an error: '' @ exn_str (KeyError ''role'')"
    by blast
  have "agent_ctor env_chain_down = None
        \<and> format_chat_history (chat_history respond_state) = Inr []
        \<and> chain_invoke env_chain_down (enhanced_input respond_state) [] =
            Inl (Exn ''APIConnectionError'' ''Connection error.'')"
    by (simp add: env_chain_down_def sample_env_def respond_state_def classified_state_def
                  sample_state_def)
  with caught_exception_postconditions
         [of env_chain_down respond_state
             "Exn ''APIConnectionError'' ''Connection error.''" _ "[]"]
  have absorbed: "\<exists>t. invoke_from env_chain_down Generate_response respond_state = Inr t
          \<and> error t = error respond_state
          \<and> final_response t = ''I apologize, but I encountered an error: Connection error.''"
    by simp
  have "error respond_state = None"
    by (simp add: respond_state_def classified_state_def sample_state_def)
  with fetch handler absorbed show ?thesis
    by (simp add: run_reaches_fetch_news run_reaches_respond_bad_history
                  run_reaches_respond_chain_down)
qed


section \<open>The whole run\<close>

text \<open>
  C2 fails on the code. When the agent cannot be constructed, \<^verbatim>\<open>classify_query_node\<close>
  catches the exception and leaves the classification \<^verbatim>\<open>None\<close>; the router then calls
  \<^verbatim>\<open>.get\<close> on \<^verbatim>\<open>None\<close> and the AttributeError leaves \<^verbatim>\<open>run_workflow\<close>. The same happens
  after the news fetch when the NewsAPI key is missing.
\<close>

theorem run_workflow_raises:
  "run_workflow env_agent_down ''How do I learn Python?'' [] =
     Inl (AttributeError ''NoneType'' ''get'')
   \<and> run_workflow env_no_news_key ''sports and business news'' [] =
     Inl (AttributeError ''NoneType'' ''get'')"
proof
  have "agent_ctor env_agent_down = Some (Exn ''OpenAIError'' ''client could not be created'')"
    by (simp add: env_agent_down_def sample_env_def)
  then show "run_workflow env_agent_down ''How do I learn Python?'' [] =
     Inl (AttributeError ''NoneType'' ''get'')"
    by (simp add: run_workflow_agent_down)
next
  have key: "news_api_key env_no_news_key = []"
    by (simp add: env_no_news_key_def sample_env_def)
  show "run_workflow env_no_news_key ''sports and business news'' [] =
     Inl (AttributeError ''NoneType'' ''get'')"
    by (simp add: run_workflow_def invoke_from_step classify_sample merge_update_def
          should_fetch_news_def bindE_def sample_classification_def
          fetch_news_node_no_key [OF key] should_add_web_search_def)
qed
end
